theory Spec2Isabelle
  imports Main "HOL-Library.Word"
begin

section \<open>The range extender's supervisor (rangeextend.ino)\<close>

text \<open>
  The sketch is a single sequential control loop over a handful of global variables.
  It talks to the outside through the Arduino core: the WiFi driver, the lwIP NAPT
  layer, a TCP client, the heap statistics, the millisecond clock, a GPIO pin and the
  restart primitive. The embedding threads one record through every function. The record
  holds the globals and the function-local statics of the sketch, a counter per external
  query (how often it has been asked so far) and the trace of the commands issued to the
  outside. What the outside answers is a parameter, the record \<open>env\<close>: the answer to the
  \<open>n\<close>-th call of each query. A theorem over every \<open>env\<close> holds for every behaviour of
  the hardware. Serial output is not modelled: it reads the state and changes nothing.
\<close>

subsection \<open>Data\<close>

text \<open>
  \<open>unsigned long\<close> and \<open>int\<close> are 32 bits wide on the ESP8266. Both are \<open>32 word\<close>;
  a signed comparison of the source reads the word with \<open>sint\<close>, an unsigned one compares
  the words.
\<close>

type_synonym u32 = "32 word"

datatype wifi_mode = WIFI_OFF | WIFI_STA | WIFI_AP | WIFI_AP_STA

datatype level = LOW | HIGH

datatype banner = InternetWorking | TestingInternet | NoConnection

text \<open>What a response carries that depends on the state; the fixed markup is left out.\<close>

datatype page = RootPage banner "8 word" u32 bool | NotFoundPage

datatype request = NoRequest | RequestRoot | RequestOther

datatype event =
    WifiSetMode wifi_mode
  | WifiBegin
  | WifiDisconnect
  | SoftAPConfig
  | SoftAP
  | SetDns
  | Delay nat
  | Yield
  | NaptInit nat nat
  | NaptEnable
  | ClientConnect string nat
  | ClientStop
  | DigitalWrite level
  | ServerSend nat page
  | EspRestart

record env =
  wifiStatus :: "nat \<Rightarrow> bool"
  wifiGetMode :: "nat \<Rightarrow> wifi_mode"
  softAPConfig :: "nat \<Rightarrow> bool"
  softAP :: "nat \<Rightarrow> bool"
  naptInit :: "nat \<Rightarrow> nat \<Rightarrow> nat \<Rightarrow> bool"
  naptEnableNo :: "nat \<Rightarrow> bool"
  clientConnect :: "nat \<Rightarrow> string \<Rightarrow> nat \<Rightarrow> bool"
  getFreeHeap :: "nat \<Rightarrow> u32"
  millis :: "nat \<Rightarrow> u32"
  softAPgetStationNum :: "nat \<Rightarrow> 8 word"
  pendingRequest :: "nat \<Rightarrow> request"

record sys =
  stationOK :: bool
  naptOK :: bool
  internetOK :: bool
  lastCheck :: u32
  lastWatchdog :: u32
  lastMemoryCheck :: u32
  bootTime :: u32
  reconnectCount :: u32
  failCount :: u32
  lastBlink :: u32
  ledState :: bool
  nStatus :: nat
  nGetMode :: nat
  nSoftAPConfig :: nat
  nSoftAP :: nat
  nNaptInit :: nat
  nNaptEnable :: nat
  nConnect :: nat
  nHeap :: nat
  nMillis :: nat
  nStationNum :: nat
  nRequest :: nat
  trace :: "event list"

text \<open>
  \<open>ESP.restart()\<close> does not return: a function that can reach it yields \<open>Restarted\<close>
  with the state at that moment, and nothing after it runs.
\<close>

datatype outcome = Running sys | Restarted sys

fun final :: "outcome \<Rightarrow> sys" where
  "final (Running s) = s"
| "final (Restarted s) = s"

fun restarted :: "outcome \<Rightarrow> bool" where
  "restarted (Running s) = False"
| "restarted (Restarted s) = True"

subsection \<open>The Arduino core\<close>

definition emit :: "event \<Rightarrow> sys \<Rightarrow> sys" where
  "emit ev s = s\<lparr>trace := trace s @ [ev]\<rparr>"

definition delay :: "nat \<Rightarrow> sys \<Rightarrow> sys" where
  "delay ms s = emit (Delay ms) s"

definition WiFi_status :: "env \<Rightarrow> sys \<Rightarrow> bool \<times> sys" where
  "WiFi_status e s = (wifiStatus e (nStatus s), s\<lparr>nStatus := nStatus s + 1\<rparr>)"

definition WiFi_getMode :: "env \<Rightarrow> sys \<Rightarrow> wifi_mode \<times> sys" where
  "WiFi_getMode e s = (wifiGetMode e (nGetMode s), s\<lparr>nGetMode := nGetMode s + 1\<rparr>)"

definition WiFi_softAPConfig :: "env \<Rightarrow> sys \<Rightarrow> bool \<times> sys" where
  "WiFi_softAPConfig e s =
     (softAPConfig e (nSoftAPConfig s),
      emit SoftAPConfig (s\<lparr>nSoftAPConfig := nSoftAPConfig s + 1\<rparr>))"

definition WiFi_softAP :: "env \<Rightarrow> sys \<Rightarrow> bool \<times> sys" where
  "WiFi_softAP e s = (softAP e (nSoftAP s), emit SoftAP (s\<lparr>nSoftAP := nSoftAP s + 1\<rparr>))"

definition ip_napt_init :: "env \<Rightarrow> nat \<Rightarrow> nat \<Rightarrow> sys \<Rightarrow> bool \<times> sys" where
  "ip_napt_init e max_nat max_portmap s =
     (naptInit e (nNaptInit s) max_nat max_portmap,
      emit (NaptInit max_nat max_portmap) (s\<lparr>nNaptInit := nNaptInit s + 1\<rparr>))"

definition ip_napt_enable_no :: "env \<Rightarrow> sys \<Rightarrow> bool \<times> sys" where
  "ip_napt_enable_no e s =
     (naptEnableNo e (nNaptEnable s), emit NaptEnable (s\<lparr>nNaptEnable := nNaptEnable s + 1\<rparr>))"

definition client_connect :: "env \<Rightarrow> string \<Rightarrow> nat \<Rightarrow> sys \<Rightarrow> bool \<times> sys" where
  "client_connect e host port s =
     (clientConnect e (nConnect s) host port,
      emit (ClientConnect host port) (s\<lparr>nConnect := nConnect s + 1\<rparr>))"

definition ESP_getFreeHeap :: "env \<Rightarrow> sys \<Rightarrow> u32 \<times> sys" where
  "ESP_getFreeHeap e s = (getFreeHeap e (nHeap s), s\<lparr>nHeap := nHeap s + 1\<rparr>)"

definition get_millis :: "env \<Rightarrow> sys \<Rightarrow> u32 \<times> sys" where
  "get_millis e s = (millis e (nMillis s), s\<lparr>nMillis := nMillis s + 1\<rparr>)"

definition WiFi_softAPgetStationNum :: "env \<Rightarrow> sys \<Rightarrow> 8 word \<times> sys" where
  "WiFi_softAPgetStationNum e s =
     (softAPgetStationNum e (nStationNum s), s\<lparr>nStationNum := nStationNum s + 1\<rparr>)"

definition ESP_restart :: "sys \<Rightarrow> outcome" where
  "ESP_restart s = Restarted (emit EspRestart s)"

subsection \<open>Core functions\<close>

text \<open>
  The polling loop of \<open>connectToRouter\<close>:
  \<^verbatim>\<open>for (int i = 0; i < 20 && WiFi.status() != WL_CONNECTED; i++) delay(500);\<close>
  The status is not queried once \<open>i\<close> has reached 20.
\<close>

function connectToRouter_poll :: "env \<Rightarrow> nat \<Rightarrow> sys \<Rightarrow> sys" where
  "connectToRouter_poll e i s =
     (if i < 20 then
        (case WiFi_status e s of
           (connected, s1) \<Rightarrow>
             if \<not> connected then connectToRouter_poll e (i + 1) (delay 500 s1) else s1)
      else s)"
  by pat_completeness auto
termination
  by (relation "measure (\<lambda>(e, i, s). 20 - i)") auto

definition connectToRouter :: "env \<Rightarrow> sys \<Rightarrow> bool \<times> sys" where
  "connectToRouter e s =
     (case WiFi_getMode e s of
        (m, s1) \<Rightarrow>
          let s2 = (if m \<noteq> WIFI_AP_STA then delay 100 (emit (WifiSetMode WIFI_AP_STA) s1) else s1);
              s3 = emit WifiBegin s2;
              s4 = connectToRouter_poll e 0 s3
          in (case WiFi_status e s4 of
                (connected, s5) \<Rightarrow>
                  if connected then (True, s5\<lparr>stationOK := True\<rparr>)
                  else (False, s5\<lparr>stationOK := False\<rparr>)))"

definition startAccessPoint :: "env \<Rightarrow> sys \<Rightarrow> bool \<times> sys" where
  "startAccessPoint e s =
     (let s1 = emit (WifiSetMode WIFI_AP_STA) s in
      case WiFi_softAPConfig e s1 of
        (ok1, s2) \<Rightarrow>
          if \<not> ok1 then (False, s2)
          else (case WiFi_softAP e s2 of
                  (ok2, s3) \<Rightarrow>
                    if \<not> ok2 then (False, s3)
                    else (True, emit SetDns (delay 1000 s3))))"

text \<open>
  \<^verbatim>\<open>ip_napt_init(a, b) == ERR_OK && ip_napt_enable_no(SOFTAP_IF, 1) == ERR_OK\<close>:
  the second call is made only when the first succeeded.
\<close>

definition napt_start :: "env \<Rightarrow> nat \<Rightarrow> nat \<Rightarrow> sys \<Rightarrow> bool \<times> sys" where
  "napt_start e max_nat max_portmap s =
     (case ip_napt_init e max_nat max_portmap s of
        (ok1, s1) \<Rightarrow> if ok1 then ip_napt_enable_no e s1 else (False, s1))"

definition enableNAPT :: "env \<Rightarrow> sys \<Rightarrow> bool \<times> sys" where
  "enableNAPT e s =
     (if \<not> stationOK s then (False, s)
      else (case napt_start e 300 5 (delay 500 s) of
              (ok1, s1) \<Rightarrow>
                if ok1 then (True, s1\<lparr>naptOK := True\<rparr>)
                else (case napt_start e 200 3 (delay 1000 (s1\<lparr>naptOK := False\<rparr>)) of
                        (ok2, s2) \<Rightarrow>
                          if ok2 then (True, s2\<lparr>naptOK := True\<rparr>) else (False, s2))))"

definition testServers :: "string list" where
  "testServers = [''8.8.8.8'', ''1.1.1.1'', ''google.com'']"

definition testPorts :: "nat list" where
  "testPorts = [53, 53, 80]"

text \<open>The loop of \<open>testInternet\<close> over the three servers, from index \<open>i\<close> on.\<close>

function testInternet_loop :: "env \<Rightarrow> nat \<Rightarrow> sys \<Rightarrow> bool \<times> sys" where
  "testInternet_loop e i s =
     (if i < 3 then
        (case client_connect e (testServers ! i) (testPorts ! i) s of
           (ok, s1) \<Rightarrow>
             if ok then (True, (emit ClientStop s1)\<lparr>internetOK := True\<rparr>)
             else testInternet_loop e (i + 1) (delay 1000 s1))
      else (False, s\<lparr>internetOK := False\<rparr>))"
  by pat_completeness auto
termination
  by (relation "measure (\<lambda>(e, i, s). 3 - i)") auto

definition testInternet :: "env \<Rightarrow> sys \<Rightarrow> bool \<times> sys" where
  "testInternet e s =
     (if \<not> stationOK s \<or> \<not> naptOK s then (False, s\<lparr>internetOK := False\<rparr>)
      else testInternet_loop e 0 s)"

definition connectionWatchdog :: "env \<Rightarrow> sys \<Rightarrow> sys" where
  "connectionWatchdog e s =
     (case WiFi_status e s of
        (connected, s1) \<Rightarrow>
          if \<not> connected then
            (let s2 = s1\<lparr>failCount := failCount s1 + 1\<rparr>;
                 s3 = s2\<lparr>stationOK := False, naptOK := False, internetOK := False\<rparr>
             in if 3 \<le> sint (failCount s3) then
                  (let s4 = delay 1000 (emit WifiDisconnect s3);
                       s5 = snd (connectToRouter e s4);
                       s6 = (if stationOK s5 then snd (enableNAPT e s5) else s5);
                       s7 = s6\<lparr>failCount := 0\<rparr>
                   in s7\<lparr>reconnectCount := reconnectCount s7 + 1\<rparr>)
                else s3)
          else
            (let s2 = s1\<lparr>failCount := 0\<rparr> in
             if \<not> stationOK s2 then
               (let s3 = s2\<lparr>stationOK := True\<rparr> in
                if \<not> naptOK s3 then snd (enableNAPT e s3) else s3)
             else s2))"

text \<open>
  \<open>checkMemory\<close> reads the heap up to three times. The first reading is stored in an
  \<open>int\<close> and compared as signed; the later ones are compared as the \<open>uint32_t\<close> they are.
  The second reading is taken only when \<open>stationOK && !naptOK\<close> holds (short-circuit).
\<close>

definition checkMemory :: "env \<Rightarrow> sys \<Rightarrow> outcome" where
  "checkMemory e s =
     (case ESP_getFreeHeap e s of
        (freeHeap, s1) \<Rightarrow>
          if sint freeHeap < 8000 then
            (let s2 = (if naptOK s1 then delay 1000 (s1\<lparr>naptOK := False\<rparr>) else s1);
                 s3 = delay 100 (emit Yield s2);
                 s4 = (if stationOK s3 \<and> \<not> naptOK s3 then
                         (case ESP_getFreeHeap e s3 of
                            (h, s3a) \<Rightarrow> if 6000 < h then snd (enableNAPT e s3a) else s3a)
                       else s3)
             in (case ESP_getFreeHeap e s4 of
                   (h2, s5) \<Rightarrow> if h2 < 4000 then ESP_restart s5 else Running s5))
          else Running s1)"

definition checkAPStatus :: "env \<Rightarrow> sys \<Rightarrow> sys" where
  "checkAPStatus e s =
     (case WiFi_getMode e s of
        (m, s1) \<Rightarrow>
          if m \<noteq> WIFI_AP_STA then
            (let s2 = delay 100 (emit (WifiSetMode WIFI_AP_STA) s1);
                 s3 = snd (startAccessPoint e s2)
             in (case WiFi_status e s3 of
                   (connected, s4) \<Rightarrow>
                     if \<not> connected then
                       (let s5 = snd (connectToRouter e s4) in
                        if stationOK s5 then snd (enableNAPT e s5) else s5)
                     else s4))
          else s1)"

definition toggleLED :: "u32 \<Rightarrow> sys \<Rightarrow> sys" where
  "toggleLED now s =
     (let s1 = s\<lparr>ledState := \<not> ledState s\<rparr>;
          s2 = emit (DigitalWrite (if ledState s1 then LOW else HIGH)) s1
      in s2\<lparr>lastBlink := now\<rparr>)"

definition updateLED :: "env \<Rightarrow> sys \<Rightarrow> sys" where
  "updateLED e s =
     (case get_millis e s of
        (now, s1) \<Rightarrow>
          if stationOK s1 \<and> naptOK s1 \<and> internetOK s1 then emit (DigitalWrite LOW) s1
          else if stationOK s1 \<and> naptOK s1 then
            (if 1000 < now - lastBlink s1 then toggleLED now s1 else s1)
          else if stationOK s1 then
            (if 300 < now - lastBlink s1 then toggleLED now s1 else s1)
          else
            (if 100 < now - lastBlink s1 then toggleLED now s1 else s1))"

subsection \<open>Web interface\<close>

definition handleRoot :: "env \<Rightarrow> sys \<Rightarrow> sys" where
  "handleRoot e s =
     (let b = (if stationOK s \<and> naptOK s \<and> internetOK s then InternetWorking
               else if stationOK s \<and> naptOK s then TestingInternet
               else NoConnection)
      in case WiFi_softAPgetStationNum e s of
           (clients, s1) \<Rightarrow>
             (case ESP_getFreeHeap e s1 of
                (mem, s2) \<Rightarrow> emit (ServerSend 200 (RootPage b clients mem (stationOK s2))) s2))"

definition handleNotFound :: "sys \<Rightarrow> sys" where
  "handleNotFound s = emit (ServerSend 404 NotFoundPage) s"

definition server_handleClient :: "env \<Rightarrow> sys \<Rightarrow> sys" where
  "server_handleClient e s =
     (let s1 = s\<lparr>nRequest := nRequest s + 1\<rparr> in
      case pendingRequest e (nRequest s) of
        NoRequest \<Rightarrow> s1
      | RequestRoot \<Rightarrow> handleRoot e s1
      | RequestOther \<Rightarrow> handleNotFound s1)"

subsection \<open>Main functions\<close>

definition CONNECTION_WATCHDOG :: u32 where
  "CONNECTION_WATCHDOG = 10000"

definition STATUS_INTERVAL :: u32 where
  "STATUS_INTERVAL = 30000"

definition REBOOT_INTERVAL :: u32 where
  "REBOOT_INTERVAL = 12 * 60 * 60 * 1000"

text \<open>The globals as their initialisers leave them, before the sketch's \<open>setup\<close> runs.\<close>

definition boot :: sys where
  "boot = \<lparr>stationOK = False, naptOK = False, internetOK = False,
           lastCheck = 0, lastWatchdog = 0, lastMemoryCheck = 0, bootTime = 0,
           reconnectCount = 0, failCount = 0, lastBlink = 0, ledState = False,
           nStatus = 0, nGetMode = 0, nSoftAPConfig = 0, nSoftAP = 0, nNaptInit = 0,
           nNaptEnable = 0, nConnect = 0, nHeap = 0, nMillis = 0, nStationNum = 0,
           nRequest = 0, trace = []\<rparr>"

text \<open>
  \<open>setup\<close> of the sketch (the name is a keyword here, hence the suffix). The one-time
  driver settings (\<open>WiFi.persistent\<close>, sleep and PHY mode) and the registration of the
  web handlers answer nothing and are not recorded in the trace.
\<close>

definition setup_main :: "env \<Rightarrow> sys \<Rightarrow> sys" where
  "setup_main e s =
     (let s0 = delay 100 s in
      case get_millis e s0 of
        (t, s1) \<Rightarrow>
          let s2 = emit (DigitalWrite HIGH) (s1\<lparr>bootTime := t\<rparr>) in
          case startAccessPoint e s2 of
            (ok, s3) \<Rightarrow>
              if \<not> ok then s3
              else (let s4 = snd (WiFi_softAPgetStationNum e s3);
                        s5 = snd (connectToRouter e s4)
                    in if stationOK s5 then snd (enableNAPT e s5) else s5))"

text \<open>
  The body of the 30-second block of \<open>loop\<close>, after \<open>lastCheck = now\<close>: the access
  point check, the reachability test, the status line (which reads the client count and
  the heap) and the restart on too many reconnects.
\<close>

definition periodicTasks :: "env \<Rightarrow> sys \<Rightarrow> outcome" where
  "periodicTasks e s =
     (let s1 = checkAPStatus e s;
          s2 = (if stationOK s1 \<and> naptOK s1 then snd (testInternet e s1) else s1);
          s3 = snd (WiFi_softAPgetStationNum e s2);
          s4 = snd (ESP_getFreeHeap e s3)
      in if 10 < sint (reconnectCount s4) then ESP_restart (delay 1000 s4) else Running s4)"

text \<open>Sequencing with the restart: nothing runs after \<open>ESP.restart()\<close>.\<close>

definition and_then :: "outcome \<Rightarrow> (sys \<Rightarrow> outcome) \<Rightarrow> outcome" where
  "and_then r f = (case r of Running s \<Rightarrow> f s | Restarted s \<Rightarrow> Restarted s)"

definition loop :: "env \<Rightarrow> sys \<Rightarrow> outcome" where
  "loop e s =
     (case get_millis e (updateLED e (server_handleClient e s)) of
        (now, s2) \<Rightarrow>
          (let s3 = (if CONNECTION_WATCHDOG < now - lastWatchdog s2
                     then (connectionWatchdog e s2)\<lparr>lastWatchdog := now\<rparr> else s2);
               r1 = (if 10000 < now - lastMemoryCheck s3
                     then and_then (checkMemory e s3) (\<lambda>t. Running (t\<lparr>lastMemoryCheck := now\<rparr>))
                     else Running s3);
               r2 = and_then r1 (\<lambda>s4.
                      if STATUS_INTERVAL < now - lastCheck s4
                      then periodicTasks e (s4\<lparr>lastCheck := now\<rparr>) else Running s4)
           in and_then r2 (\<lambda>s5.
                if REBOOT_INTERVAL < now - bootTime s5
                then ESP_restart (delay 1000 s5) else Running (emit Yield s5))))"

subsection \<open>Observations\<close>

text \<open>
  The supervisor state: the three flags, the two counters and the four timestamps.
\<close>

definition supervisor :: "sys \<Rightarrow> (bool \<times> bool \<times> bool) \<times> (u32 \<times> u32) \<times> (u32 \<times> u32 \<times> u32 \<times> u32)" where
  "supervisor s =
     ((stationOK s, naptOK s, internetOK s),
      (failCount s, reconnectCount s),
      (lastCheck s, lastWatchdog s, lastMemoryCheck s, bootTime s))"

text \<open>The commands issued between two states, and the connection attempts among them.\<close>

definition new_events :: "sys \<Rightarrow> sys \<Rightarrow> event list" where
  "new_events s s' = drop (length (trace s)) (trace s')"

fun connects :: "event list \<Rightarrow> (string \<times> nat) list" where
  "connects [] = []"
| "connects (ClientConnect h p # evs) = (h, p) # connects evs"
| "connects (ev # evs) = connects evs"

subsection \<open>Concrete environments and states\<close>

text \<open>
  \<open>readings d xs\<close> answers the first calls from the list \<open>xs\<close> and every later call with
  \<open>d\<close>. In \<open>env_up\<close> everything works and memory is plentiful; the others differ from it
  in one or two answers. \<open>linked\<close> is the healthy state: link up, forwarding on, internet
  reachable.
\<close>

definition readings :: "'a \<Rightarrow> 'a list \<Rightarrow> nat \<Rightarrow> 'a" where
  "readings d xs n = (if n < length xs then xs ! n else d)"

definition env_up :: env where
  "env_up = \<lparr>wifiStatus = (\<lambda>n. True), wifiGetMode = (\<lambda>n. WIFI_AP_STA),
     softAPConfig = (\<lambda>n. True), softAP = (\<lambda>n. True),
     naptInit = (\<lambda>n a b. True), naptEnableNo = (\<lambda>n. True),
     clientConnect = (\<lambda>n h p. True), getFreeHeap = (\<lambda>n. 40000),
     millis = (\<lambda>n. 0), softAPgetStationNum = (\<lambda>n. 0),
     pendingRequest = (\<lambda>n. NoRequest)\<rparr>"

definition heap_env :: "u32 list \<Rightarrow> env" where
  "heap_env hs = env_up\<lparr>getFreeHeap := readings 40000 hs\<rparr>"

definition env_down :: env where
  "env_down = env_up\<lparr>wifiStatus := (\<lambda>n. False)\<rparr>"

definition env_lost :: env where
  "env_lost = env_up\<lparr>wifiGetMode := readings WIFI_AP_STA [WIFI_AP], wifiStatus := (\<lambda>n. False)\<rparr>"

definition env_second :: env where
  "env_second = env_up\<lparr>clientConnect := (\<lambda>n h p. n = 1)\<rparr>"

definition linked :: sys where
  "linked = boot\<lparr>stationOK := True, naptOK := True, internetOK := True\<rparr>"

text \<open>
  Two runs from power-on. In \<open>env_run\<close> the first pass through \<open>loop\<close> happens at 31 s
  and the second at 42 s, when the heap has dropped to 7000 and then 5000 bytes. In
  \<open>env_drop\<close> the link is lost after the watchdog's check of the first pass and the
  WiFi mode reads \<open>WIFI_AP\<close> in \<open>checkAPStatus\<close>.
\<close>

definition env_run :: env where
  "env_run = env_up\<lparr>millis := readings 0 [0, 31000, 31000, 42000, 42000],
      getFreeHeap := readings 40000 [40000, 40000, 7000, 5000, 5000]\<rparr>"

definition env_drop :: env where
  "env_drop = env_up\<lparr>millis := readings 0 [0, 31000, 31000],
      wifiGetMode := readings WIFI_AP_STA [WIFI_AP_STA, WIFI_AP],
      wifiStatus := (\<lambda>n. n < 3)\<rparr>"

text \<open>
  A state with eleven forced reconnects behind it, the fast timers fired at 25 s and the
  status timer never, under a clock that reads 31 s.
\<close>

definition env_late :: env where
  "env_late = env_up\<lparr>millis := (\<lambda>n. 31000)\<rparr>"

definition overrun :: sys where
  "overrun = linked\<lparr>reconnectCount := 11, lastWatchdog := 25000, lastMemoryCheck := 25000\<rparr>"

section \<open>Auxiliary facts\<close>

declare testInternet_loop.simps [simp del] connectToRouter_poll.simps [simp del]

lemmas core_defs = emit_def delay_def WiFi_status_def WiFi_getMode_def WiFi_softAPConfig_def
  WiFi_softAP_def ip_napt_init_def ip_napt_enable_no_def client_connect_def ESP_getFreeHeap_def
  get_millis_def WiFi_softAPgetStationNum_def ESP_restart_def

lemmas checkMemory_unfold = checkMemory_def ESP_getFreeHeap_def ESP_restart_def Let_def
  delay_def emit_def

lemmas enableNAPT_unfold = enableNAPT_def napt_start_def ip_napt_init_def ip_napt_enable_no_def
  emit_def delay_def

lemmas concrete_defs = readings_def env_up_def heap_env_def env_down_def env_lost_def
  env_second_def env_run_def env_drop_def env_late_def overrun_def linked_def boot_def

lemma sint_succ: "sint (x :: u32) < 2147483647 \<Longrightarrow> sint (x + 1) = sint x + 1"
proof -
  assume a: "sint x < 2147483647"
  have lo: "- 2147483648 \<le> sint x"
    using sint_ge [of x] by simp
  show ?thesis
    using a lo by (simp add: sint_word_ariths signed_take_bit_int_eq_self)
qed

subsection \<open>The polling loop and \<open>connectToRouter\<close>\<close>

lemma poll_frame:
  "connectToRouter_poll e i s =
     s\<lparr>nStatus := nStatus (connectToRouter_poll e i s),
       trace := trace (connectToRouter_poll e i s)\<rparr>"
proof (induction e i s rule: connectToRouter_poll.induct)
  case (1 e i s)
  show ?case
  proof (cases "i < 20 \<and> \<not> wifiStatus e (nStatus s)")
    case True
    let ?s1 = "delay 500 (s\<lparr>nStatus := nStatus s + 1\<rparr>)"
    have step: "connectToRouter_poll e i s = connectToRouter_poll e (i + 1) ?s1"
      using True by (subst connectToRouter_poll.simps) (simp add: WiFi_status_def)
    have "connectToRouter_poll e (i + 1) ?s1 =
            ?s1\<lparr>nStatus := nStatus (connectToRouter_poll e (i + 1) ?s1),
                 trace := trace (connectToRouter_poll e (i + 1) ?s1)\<rparr>"
      using True "1.IH" [of False "s\<lparr>nStatus := nStatus s + 1\<rparr>"] by (simp add: WiFi_status_def)
    then show ?thesis
      unfolding step by (simp add: delay_def emit_def)
  next
    case False
    then show ?thesis
      by (subst (1 2 3) connectToRouter_poll.simps) (auto simp: WiFi_status_def)
  qed
qed

lemma poll_trace:
  "\<exists>n. trace (connectToRouter_poll e i s) = trace s @ replicate n (Delay 500)"
proof (induction e i s rule: connectToRouter_poll.induct)
  case (1 e i s)
  show ?case
  proof (cases "i < 20 \<and> \<not> wifiStatus e (nStatus s)")
    case True
    let ?s1 = "delay 500 (s\<lparr>nStatus := nStatus s + 1\<rparr>)"
    have step: "connectToRouter_poll e i s = connectToRouter_poll e (i + 1) ?s1"
      using True by (subst connectToRouter_poll.simps) (simp add: WiFi_status_def)
    have "\<exists>n. trace (connectToRouter_poll e (i + 1) ?s1) = trace ?s1 @ replicate n (Delay 500)"
      using True "1.IH" [of False "s\<lparr>nStatus := nStatus s + 1\<rparr>"] by (simp add: WiFi_status_def)
    then obtain n where
      "trace (connectToRouter_poll e (i + 1) ?s1) = trace s @ replicate (Suc n) (Delay 500)"
      by (auto simp: delay_def emit_def)
    then show ?thesis unfolding step by blast
  next
    case False
    then have "trace (connectToRouter_poll e i s) = trace s @ replicate 0 (Delay 500)"
      by (subst connectToRouter_poll.simps) (auto simp: WiFi_status_def)
    then show ?thesis by blast
  qed
qed

lemma connectToRouter_frame:
  "snd (connectToRouter e s) =
     s\<lparr>stationOK := fst (connectToRouter e s),
       nStatus := nStatus (snd (connectToRouter e s)),
       nGetMode := nGetMode s + 1,
       trace := trace (snd (connectToRouter e s))\<rparr>"
  unfolding connectToRouter_def Let_def WiFi_getMode_def WiFi_status_def
  by (subst (1 2 3 4 5 6 7 8) poll_frame) (simp add: delay_def emit_def)

lemma connectToRouter_stationOK:
  "stationOK (snd (connectToRouter e s)) = fst (connectToRouter e s)"
  by (simp add: connectToRouter_def Let_def WiFi_getMode_def WiFi_status_def split: prod.splits)

lemma connectToRouter_trace:
  "\<exists>xs. trace (snd (connectToRouter e s)) = trace s @ xs
        \<and> count_list xs WifiBegin = 1 \<and> count_list xs WifiDisconnect = 0"
proof -
  let ?s3 = "emit WifiBegin
     (if wifiGetMode e (nGetMode s) \<noteq> WIFI_AP_STA
      then delay 100 (emit (WifiSetMode WIFI_AP_STA) (s\<lparr>nGetMode := nGetMode s + 1\<rparr>))
      else s\<lparr>nGetMode := nGetMode s + 1\<rparr>)"
  obtain n where n: "trace (connectToRouter_poll e 0 ?s3) = trace ?s3 @ replicate n (Delay 500)"
    using poll_trace by blast
  have "trace (snd (connectToRouter e s)) = trace (connectToRouter_poll e 0 ?s3)"
    by (simp add: connectToRouter_def Let_def WiFi_getMode_def WiFi_status_def)
  also have "\<dots> = trace s @
      ((if wifiGetMode e (nGetMode s) \<noteq> WIFI_AP_STA then [WifiSetMode WIFI_AP_STA, Delay 100] else [])
        @ WifiBegin # replicate n (Delay 500))"
    unfolding n by (simp add: delay_def emit_def)
  finally show ?thesis
    by (intro exI conjI, assumption) (simp_all add: count_list_append)
qed

lemma napt_start_frame:
  "snd (napt_start e a b s) =
     s\<lparr>nNaptInit := nNaptInit s + 1,
       nNaptEnable := nNaptEnable (snd (napt_start e a b s)),
       trace := trace (snd (napt_start e a b s))\<rparr>"
  by (simp add: napt_start_def ip_napt_init_def ip_napt_enable_no_def emit_def)

lemma enableNAPT_down: "\<not> stationOK s \<Longrightarrow> enableNAPT e s = (False, s)"
  by (simp add: enableNAPT_def)

lemma enableNAPT_naptOK:
  "stationOK s \<Longrightarrow> naptOK (snd (enableNAPT e s)) = fst (enableNAPT e s)"
  by (simp add: enableNAPT_def napt_start_def ip_napt_init_def ip_napt_enable_no_def
      emit_def delay_def)

lemma enableNAPT_fields:
  "stationOK (snd (enableNAPT e s)) = stationOK s"
  "internetOK (snd (enableNAPT e s)) = internetOK s"
  "failCount (snd (enableNAPT e s)) = failCount s"
  "reconnectCount (snd (enableNAPT e s)) = reconnectCount s"
  "nHeap (snd (enableNAPT e s)) = nHeap s"
  by (simp_all add: enableNAPT_def napt_start_def ip_napt_init_def ip_napt_enable_no_def
      emit_def delay_def)

lemma enableNAPT_trace:
  "\<exists>xs. trace (snd (enableNAPT e s)) = trace s @ xs
        \<and> count_list xs WifiBegin = 0 \<and> count_list xs WifiDisconnect = 0"
  by (simp add: enableNAPT_def napt_start_def ip_napt_init_def ip_napt_enable_no_def
      emit_def delay_def)

lemma connectToRouter_fields:
  "naptOK (snd (connectToRouter e s)) = naptOK s"
  "internetOK (snd (connectToRouter e s)) = internetOK s"
  "failCount (snd (connectToRouter e s)) = failCount s"
  "reconnectCount (snd (connectToRouter e s)) = reconnectCount s"
  by (subst connectToRouter_frame, simp)+

lemma connectToRouter_down:
  "(\<And>n. \<not> wifiStatus e n) \<Longrightarrow> \<not> fst (connectToRouter e s)"
  by (simp add: connectToRouter_def Let_def WiFi_getMode_def WiFi_status_def)

lemma enableNAPT_result:
  "fst (enableNAPT e s) =
     (stationOK s \<and>
      (naptInit e (nNaptInit s) 300 5 \<and> naptEnableNo e (nNaptEnable s)
       \<or> naptInit e (nNaptInit s + 1) 200 3
          \<and> naptEnableNo e (if naptInit e (nNaptInit s) 300 5
                            then nNaptEnable s + 1 else nNaptEnable s)))"
  by (simp add: enableNAPT_unfold)

lemma enableNAPT_calls:
  "nNaptInit (snd (enableNAPT e s)) =
     (if stationOK s
      then nNaptInit s
           + (if naptInit e (nNaptInit s) 300 5 \<and> naptEnableNo e (nNaptEnable s) then 1 else 2)
      else nNaptInit s)"
  by (simp add: enableNAPT_unfold)

subsection \<open>The watchdog\<close>

lemma watchdog_miss:
  assumes "\<not> wifiStatus e (nStatus s)" and "\<not> 3 \<le> sint (failCount s + 1)"
  shows "connectionWatchdog e s =
           s\<lparr>nStatus := nStatus s + 1, failCount := failCount s + 1,
             stationOK := False, naptOK := False, internetOK := False\<rparr>"
  using assms by (simp add: connectionWatchdog_def WiFi_status_def Let_def)

lemma watchdog_forced:
  assumes down: "\<not> wifiStatus e (nStatus s)" and third: "3 \<le> sint (failCount s + 1)"
  shows "failCount (connectionWatchdog e s) = 0"
    and "reconnectCount (connectionWatchdog e s) = reconnectCount s + 1"
    and "\<exists>rest. trace (connectionWatchdog e s) = trace s @ WifiDisconnect # Delay 1000 # rest
            \<and> count_list rest WifiDisconnect = 0 \<and> count_list rest WifiBegin = 1"
proof -
  let ?s3 = "s\<lparr>nStatus := nStatus s + 1, failCount := failCount s + 1,
               stationOK := False, naptOK := False, internetOK := False\<rparr>"
  let ?s4 = "delay 1000 (emit WifiDisconnect ?s3)"
  let ?s5 = "snd (connectToRouter e ?s4)"
  let ?s6 = "if stationOK ?s5 then snd (enableNAPT e ?s5) else ?s5"
  have wd: "connectionWatchdog e s = ?s6\<lparr>failCount := 0, reconnectCount := reconnectCount ?s6 + 1\<rparr>"
    using assms by (simp add: connectionWatchdog_def WiFi_status_def Let_def)
  show "failCount (connectionWatchdog e s) = 0"
    unfolding wd by simp
  have "reconnectCount ?s5 = reconnectCount s"
    by (subst connectToRouter_frame) (simp add: delay_def emit_def)
  then have "reconnectCount ?s6 = reconnectCount s"
    by (simp add: enableNAPT_fields)
  then show "reconnectCount (connectionWatchdog e s) = reconnectCount s + 1"
    unfolding wd by simp
  obtain xs where xs: "trace ?s5 = trace ?s4 @ xs" "count_list xs WifiBegin = 1"
      "count_list xs WifiDisconnect = 0"
    using connectToRouter_trace by blast
  obtain ys where ys: "trace ?s6 = trace ?s5 @ ys" "count_list ys WifiBegin = 0"
      "count_list ys WifiDisconnect = 0"
  proof (cases "stationOK ?s5")
    case True
    then show ?thesis using enableNAPT_trace [of e ?s5] that by auto
  next
    case False
    then show ?thesis using that [of "[]"] by simp
  qed
  have "trace (connectionWatchdog e s) = trace s @ WifiDisconnect # Delay 1000 # (xs @ ys)"
    unfolding wd using xs(1) ys(1) by (simp add: delay_def emit_def)
  moreover have "count_list (xs @ ys) WifiDisconnect = 0" "count_list (xs @ ys) WifiBegin = 1"
    using xs ys by (simp_all add: count_list_append)
  ultimately show "\<exists>rest. trace (connectionWatchdog e s) = trace s @ WifiDisconnect # Delay 1000 # rest
            \<and> count_list rest WifiDisconnect = 0 \<and> count_list rest WifiBegin = 1"
    by blast
qed

subsection \<open>The reachability probe and the periodic tasks\<close>

lemma testInternet_loop_unroll:
  "testInternet_loop e 0 s =
     (case client_connect e ''8.8.8.8'' 53 s of
        (ok0, s1) \<Rightarrow>
          if ok0 then (True, (emit ClientStop s1)\<lparr>internetOK := True\<rparr>)
          else (case client_connect e ''1.1.1.1'' 53 (delay 1000 s1) of
                  (ok1, s2) \<Rightarrow>
                    if ok1 then (True, (emit ClientStop s2)\<lparr>internetOK := True\<rparr>)
                    else (case client_connect e ''google.com'' 80 (delay 1000 s2) of
                            (ok2, s3) \<Rightarrow>
                              if ok2 then (True, (emit ClientStop s3)\<lparr>internetOK := True\<rparr>)
                              else (False, (delay 1000 s3)\<lparr>internetOK := False\<rparr>))))"
proof -
  have l3: "testInternet_loop e (Suc (Suc (Suc 0))) t = (False, t\<lparr>internetOK := False\<rparr>)" for t
    by (subst testInternet_loop.simps) simp
  have l2: "testInternet_loop e (Suc (Suc 0)) t =
     (case client_connect e ''google.com'' 80 t of
        (ok, t1) \<Rightarrow> if ok then (True, (emit ClientStop t1)\<lparr>internetOK := True\<rparr>)
                    else (False, (delay 1000 t1)\<lparr>internetOK := False\<rparr>))" for t
    by (subst testInternet_loop.simps) (simp add: testServers_def testPorts_def l3 split: prod.splits)
  have l1: "testInternet_loop e (Suc 0) t =
     (case client_connect e ''1.1.1.1'' 53 t of
        (ok, t1) \<Rightarrow> if ok then (True, (emit ClientStop t1)\<lparr>internetOK := True\<rparr>)
                    else testInternet_loop e (Suc (Suc 0)) (delay 1000 t1))" for t
    by (subst testInternet_loop.simps) (simp add: testServers_def testPorts_def split: prod.splits)
  show ?thesis
    by (subst testInternet_loop.simps) (simp add: testServers_def testPorts_def l1 l2 split: prod.splits)
qed

lemma testInternet_reconnectCount:
  "reconnectCount (snd (testInternet e s)) = reconnectCount s"
  by (simp add: testInternet_def testInternet_loop_unroll client_connect_def emit_def delay_def)

lemma startAccessPoint_fields:
  "reconnectCount (snd (startAccessPoint e s)) = reconnectCount s"
  by (simp add: startAccessPoint_def WiFi_softAPConfig_def WiFi_softAP_def emit_def delay_def Let_def)

lemma connectToRouter_reconnectCount:
  "reconnectCount (snd (connectToRouter e s)) = reconnectCount s"
  by (subst connectToRouter_frame) simp

lemma checkAPStatus_reconnectCount:
  "reconnectCount (checkAPStatus e s) = reconnectCount s"
  by (simp add: checkAPStatus_def WiFi_getMode_def WiFi_status_def Let_def enableNAPT_fields
      connectToRouter_reconnectCount startAccessPoint_fields emit_def delay_def)

subsection \<open>Failing and succeeding connection attempts\<close>

lemma poll_nStatus_mono: "nStatus s \<le> nStatus (connectToRouter_poll e i s)"
proof (induction e i s rule: connectToRouter_poll.induct)
  case (1 e i s)
  show ?case
  proof (cases "i < 20 \<and> \<not> wifiStatus e (nStatus s)")
    case True
    let ?s1 = "delay 500 (s\<lparr>nStatus := nStatus s + 1\<rparr>)"
    have step: "connectToRouter_poll e i s = connectToRouter_poll e (i + 1) ?s1"
      using True by (subst connectToRouter_poll.simps) (simp add: WiFi_status_def)
    have "nStatus ?s1 \<le> nStatus (connectToRouter_poll e (i + 1) ?s1)"
      using True "1.IH" [of False "s\<lparr>nStatus := nStatus s + 1\<rparr>"] by (simp add: WiFi_status_def)
    then show ?thesis
      unfolding step by (simp add: delay_def emit_def)
  next
    case False
    then show ?thesis
      by (subst connectToRouter_poll.simps) (auto simp: WiFi_status_def)
  qed
qed

lemma connectToRouter_fails:
  assumes "\<And>n. nStatus s \<le> n \<Longrightarrow> \<not> wifiStatus e n"
  shows "\<not> fst (connectToRouter e s)"
proof -
  have later: "\<not> wifiStatus e (nStatus (connectToRouter_poll e 0 t))" if "nStatus t = nStatus s" for t
    using poll_nStatus_mono [of t e 0] that by (intro assms) simp
  show ?thesis
  proof (cases "wifiGetMode e (nGetMode s) = WIFI_AP_STA")
    case True
    then show ?thesis
      using later [of "emit WifiBegin (s\<lparr>nGetMode := nGetMode s + 1\<rparr>)"]
      by (simp add: connectToRouter_def Let_def WiFi_getMode_def WiFi_status_def emit_def)
  next
    case False
    then show ?thesis
      using later [of "emit WifiBegin (delay 100 (emit (WifiSetMode WIFI_AP_STA)
                         (s\<lparr>nGetMode := nGetMode s + 1\<rparr>)))"]
      by (simp add: connectToRouter_def Let_def WiFi_getMode_def WiFi_status_def emit_def delay_def)
  qed
qed

lemma poll_connected:
  "i < 20 \<Longrightarrow> wifiStatus e (nStatus s) \<Longrightarrow>
     connectToRouter_poll e i s = s\<lparr>nStatus := nStatus s + 1\<rparr>"
  by (subst connectToRouter_poll.simps) (simp add: WiFi_status_def)

lemma connectToRouter_bootTime:
  "bootTime (snd (connectToRouter e s)) = bootTime s"
  by (subst connectToRouter_frame) simp

subsection \<open>The loop\<close>

lemma periodicTasks_restarted:
  "restarted (periodicTasks e s) = (10 < sint (reconnectCount s))"
  by (simp add: periodicTasks_def Let_def WiFi_softAPgetStationNum_def ESP_getFreeHeap_def
      ESP_restart_def testInternet_reconnectCount checkAPStatus_reconnectCount)

lemma loop_prologue:
  "get_millis e (updateLED e (server_handleClient e s)) = (now, t) \<Longrightarrow>
     now = millis e (nMillis s + 1) \<and> supervisor t = supervisor s"
  by (auto simp: get_millis_def updateLED_def toggleLED_def server_handleClient_def
      handleRoot_def handleNotFound_def WiFi_softAPgetStationNum_def ESP_getFreeHeap_def
      emit_def Let_def supervisor_def split: request.splits if_splits)

lemma wd_down1: "connectionWatchdog env_down boot = boot\<lparr>nStatus := 1, failCount := 1\<rparr>"
  by (simp add: connectionWatchdog_def WiFi_status_def Let_def concrete_defs)

lemma wd_down2:
  "connectionWatchdog env_down (connectionWatchdog env_down boot) = boot\<lparr>nStatus := 2, failCount := 2\<rparr>"
  unfolding wd_down1
  by (simp add: connectionWatchdog_def WiFi_status_def Let_def concrete_defs)

subsection \<open>Two runs from power-on\<close>

lemmas run_defs = setup_main_def loop_def and_then_def periodicTasks_def checkAPStatus_def
  connectionWatchdog_def checkMemory_def testInternet_def testInternet_loop_unroll
  updateLED_def toggleLED_def server_handleClient_def startAccessPoint_def
  enableNAPT_def napt_start_def core_defs CONNECTION_WATCHDOG_def STATUS_INTERVAL_def
  REBOOT_INTERVAL_def Let_def

lemma setup_run:
  "setup_main env_run boot =
    boot\<lparr>stationOK := True, naptOK := True, nStatus := 2, nGetMode := 1, nSoftAPConfig := 1,
      nSoftAP := 1, nNaptInit := 1, nNaptEnable := 1, nMillis := 1, nStationNum := 1,
      trace := [Delay 100, DigitalWrite HIGH, WifiSetMode WIFI_AP_STA, SoftAPConfig,
        SoftAP, Delay 1000, SetDns, WifiBegin, Delay 500, NaptInit 300 5, NaptEnable]\<rparr>"
  by (simp add: run_defs connectToRouter_def poll_connected concrete_defs)

lemma stale_flag_reachable:
  "\<not> restarted (loop env_run (setup_main env_run boot))
   \<and> stationOK (final (loop env_run (setup_main env_run boot)))
   \<and> naptOK (final (loop env_run (setup_main env_run boot)))
   \<and> internetOK (final (loop env_run (setup_main env_run boot)))
   \<and> \<not> restarted (loop env_run (final (loop env_run (setup_main env_run boot))))
   \<and> \<not> naptOK (final (loop env_run (final (loop env_run (setup_main env_run boot)))))
   \<and> internetOK (final (loop env_run (final (loop env_run (setup_main env_run boot)))))"
  unfolding setup_run
  by (simp add: run_defs connectToRouter_def poll_connected concrete_defs)

lemma setup_drop:
  "setup_main env_drop boot =
    boot\<lparr>stationOK := True, naptOK := True, nStatus := 2, nGetMode := 1, nSoftAPConfig := 1,
      nSoftAP := 1, nNaptInit := 1, nNaptEnable := 1, nMillis := 1, nStationNum := 1,
      trace := [Delay 100, DigitalWrite HIGH, WifiSetMode WIFI_AP_STA, SoftAPConfig,
        SoftAP, Delay 1000, SetDns, WifiBegin, Delay 500, NaptInit 300 5, NaptEnable]\<rparr>"
  by (simp add: run_defs connectToRouter_def poll_connected concrete_defs)

lemma forwarding_without_link_reachable:
  "\<not> restarted (loop env_drop (setup_main env_drop boot))
   \<and> \<not> stationOK (final (loop env_drop (setup_main env_drop boot)))
   \<and> naptOK (final (loop env_drop (setup_main env_drop boot)))"
proof -
  have "\<not> stationOK (snd (connectToRouter env_drop t))" if "3 \<le> nStatus t" for t
    using that connectToRouter_fails [of t env_drop]
    by (simp add: connectToRouter_stationOK concrete_defs)
  then show ?thesis
    unfolding setup_drop
    by (simp add: run_defs connectToRouter_fields connectToRouter_bootTime concrete_defs)
qed

section \<open>The claims\<close>

subsection \<open>Flags: reachability, forwarding, link\<close>

text \<open>
  C1. The claim: \<open>internetOK\<close> is never true while \<open>naptOK\<close> is false, after any cycle
  function. \<open>checkMemory\<close> breaks it. Called in the healthy state with heap readings 7000,
  5000 and 5000 it clears \<open>naptOK\<close> (first reading below 8000), does not re-enable it
  (second reading not above 6000), does not restart (third reading not below 4000) and
  returns with \<open>internetOK\<close> still true. The watchdog clears the three flags together and
  \<open>testInternet\<close> itself clears \<open>internetOK\<close> when \<open>naptOK\<close> is false, but \<open>loop\<close> calls
  \<open>testInternet\<close> only when \<open>stationOK && naptOK\<close>, so the value stays. The lemma
  \<open>stale_flag_reachable\<close> reaches the same flags from power-on.
\<close>

theorem checkMemory_drops_forwarding_keeps_internetOK:
  "\<not> restarted (checkMemory (heap_env [7000, 5000, 5000]) linked)
   \<and> stationOK (final (checkMemory (heap_env [7000, 5000, 5000]) linked))
   \<and> \<not> naptOK (final (checkMemory (heap_env [7000, 5000, 5000]) linked))
   \<and> internetOK (final (checkMemory (heap_env [7000, 5000, 5000]) linked))"
  by (simp add: concrete_defs checkMemory_unfold)

text \<open>
  C6. The claim: \<open>naptOK\<close> is never true while \<open>stationOK\<close> is false; whatever clears
  \<open>stationOK\<close> clears \<open>naptOK\<close> too. The reconnect of \<open>checkAPStatus\<close> breaks it. In the
  healthy state, with the WiFi mode read as \<open>WIFI_AP\<close> and the link down,
  \<open>connectToRouter\<close> fails and sets \<open>stationOK\<close> to false, and \<open>naptOK\<close> and \<open>internetOK\<close>
  keep their true values. The watchdog's link-down branch clears all three. The lemma
  \<open>forwarding_without_link_reachable\<close> reaches \<open>naptOK\<close> without \<open>stationOK\<close> from
  power-on.
\<close>

theorem failed_reconnect_keeps_naptOK:
  "\<not> stationOK (checkAPStatus env_lost linked)
   \<and> naptOK (checkAPStatus env_lost linked)
   \<and> internetOK (checkAPStatus env_lost linked)"
proof -
  have down: "\<not> wifiStatus env_lost n" for n by (simp add: concrete_defs)
  have "\<not> stationOK (snd (connectToRouter env_lost t))" for t
    using connectToRouter_down [of env_lost t] down by (simp add: connectToRouter_stationOK)
  then show ?thesis
    by (simp add: checkAPStatus_def WiFi_getMode_def WiFi_status_def Let_def
        connectToRouter_fields startAccessPoint_def WiFi_softAPConfig_def WiFi_softAP_def
        emit_def delay_def concrete_defs)
qed

subsection \<open>The watchdog's forced reconnect\<close>

text \<open>
  C2. Three watchdog cycles that each find the link down, counted from a failure counter
  of 0 (its value after any cycle that found the link up and after any forced reconnect).
  Whatever runs between the cycles may change everything but \<open>failCount\<close>, which is local
  to the watchdog. The first two cycles issue no command and leave \<open>reconnectCount\<close> as it
  was. The third issues the disconnect and the one-second pause, then exactly one
  \<open>WiFi.begin\<close> and no further disconnect; after it \<open>failCount\<close> is 0 and
  \<open>reconnectCount\<close> is one more than before, for every answer of the environment, so
  whether or not the reconnect succeeds. The increment is the 32-bit one; below
  \<open>INT_MAX\<close> it is the integer successor.
\<close>

theorem watchdog_third_failure_reconnects:
  assumes "failCount s1 = 0" and "\<not> wifiStatus e (nStatus s1)"
    and "failCount s2 = failCount (connectionWatchdog e s1)" and "\<not> wifiStatus e (nStatus s2)"
    and "failCount s3 = failCount (connectionWatchdog e s2)" and "\<not> wifiStatus e (nStatus s3)"
  shows "trace (connectionWatchdog e s1) = trace s1
       \<and> reconnectCount (connectionWatchdog e s1) = reconnectCount s1
       \<and> trace (connectionWatchdog e s2) = trace s2
       \<and> reconnectCount (connectionWatchdog e s2) = reconnectCount s2
       \<and> (\<exists>rest. trace (connectionWatchdog e s3) = trace s3 @ WifiDisconnect # Delay 1000 # rest
              \<and> count_list rest WifiDisconnect = 0 \<and> count_list rest WifiBegin = 1)
       \<and> failCount (connectionWatchdog e s3) = 0
       \<and> reconnectCount (connectionWatchdog e s3) = reconnectCount s3 + 1
       \<and> (sint (reconnectCount s3) < 2147483647 \<longrightarrow>
            sint (reconnectCount (connectionWatchdog e s3)) = sint (reconnectCount s3) + 1)"
proof -
  have c1: "connectionWatchdog e s1 =
      s1\<lparr>nStatus := nStatus s1 + 1, failCount := failCount s1 + 1,
          stationOK := False, naptOK := False, internetOK := False\<rparr>"
    using assms(1,2) by (intro watchdog_miss) simp_all
  then have f2: "failCount s2 = 1"
    using assms(1,3) by simp
  have c2: "connectionWatchdog e s2 =
      s2\<lparr>nStatus := nStatus s2 + 1, failCount := failCount s2 + 1,
          stationOK := False, naptOK := False, internetOK := False\<rparr>"
    using f2 assms(4) by (intro watchdog_miss) simp_all
  then have f3: "failCount s3 = 2"
    using f2 assms(5) by simp
  have third: "3 \<le> sint (failCount s3 + 1)"
    using f3 by simp
  show ?thesis
    using watchdog_forced [OF assms(6) third] by (simp add: c1 c2 sint_succ)
qed

text \<open>
  The theorem on a concrete run: from power-on with the link down throughout, three
  watchdog cycles in a row.
\<close>

theorem watchdog_third_failure_reconnects_witness:
  "failCount boot = 0 \<and> \<not> wifiStatus env_down (nStatus boot)
   \<and> \<not> wifiStatus env_down (nStatus (connectionWatchdog env_down boot))
   \<and> \<not> wifiStatus env_down (nStatus (connectionWatchdog env_down (connectionWatchdog env_down boot)))
   \<and> sint (reconnectCount (connectionWatchdog env_down (connectionWatchdog env_down boot)))
       < 2147483647
   \<and> failCount (connectionWatchdog env_down
        (connectionWatchdog env_down (connectionWatchdog env_down boot))) = 0
   \<and> reconnectCount (connectionWatchdog env_down
        (connectionWatchdog env_down (connectionWatchdog env_down boot))) = 1
   \<and> sint (reconnectCount (connectionWatchdog env_down
        (connectionWatchdog env_down (connectionWatchdog env_down boot)))) = 1"
proof -
  have h1: "failCount boot = 0" by (simp add: boot_def)
  have h2: "\<not> wifiStatus env_down n" for n by (simp add: concrete_defs)
  have rc: "reconnectCount (connectionWatchdog env_down (connectionWatchdog env_down boot)) = 0"
    unfolding wd_down2 by (simp add: boot_def)
  show ?thesis
    using watchdog_third_failure_reconnects [OF h1 h2 refl h2 refl h2] h1 h2 rc
    by simp
qed

subsection \<open>The memory guard\<close>

text \<open>
  C3, as the code has it. \<open>checkMemory\<close> calls the restart exactly when its first reading
  is below 8000 (as a signed \<open>int\<close>) and its last reading, taken after the cleanup and
  compared with 4000, is below 4000. The last reading is the third one when \<open>stationOK\<close>
  holds on entry and the second one otherwise. The flags \<open>naptOK\<close> and \<open>internetOK\<close> do not
  occur in the condition and \<open>stationOK\<close> only selects the reading. In particular a cycle
  all of whose readings are below 4000 restarts.
\<close>

theorem checkMemory_restart_iff:
  "restarted (checkMemory e s) =
     (sint (getFreeHeap e (nHeap s)) < 8000
      \<and> getFreeHeap e (nHeap s + (if stationOK s then 2 else 1)) < 4000)"
  by (simp add: checkMemory_unfold enableNAPT_fields)

text \<open>
  The claim as stated, for every reading below 4000, fails: a first reading of 3000
  followed by readings of 5000 ends the cycle without a restart. The source re-reads the
  heap for the emergency test (``if still critical'').
\<close>

theorem emergency_reading_without_restart:
  "getFreeHeap (heap_env [3000, 5000, 5000]) (nHeap linked) = 3000
   \<and> (3000 :: u32) < 4000
   \<and> \<not> restarted (checkMemory (heap_env [3000, 5000, 5000]) linked)"
  by (simp add: concrete_defs checkMemory_unfold)

text \<open>
  C4, as the code has it. A cycle entered with \<open>naptOK\<close> set and a first reading below
  8000 clears the flag; in the same cycle, when the link flag is up and the next reading
  is above 6000, it calls \<open>enableNAPT\<close>, and the flag ends the cycle true exactly when that
  call succeeds. With the link flag down or the next reading at most 6000 the flag ends
  the cycle false. \<open>stationOK\<close> is not changed.
\<close>

theorem checkMemory_low_tier:
  assumes "naptOK s" and "sint (getFreeHeap e (nHeap s)) < 8000"
  shows "naptOK (final (checkMemory e s)) =
           (stationOK s \<and> 6000 < getFreeHeap e (nHeap s + 1) \<and> fst (enableNAPT e s))
         \<and> stationOK (final (checkMemory e s)) = stationOK s"
  using assms
  by (simp add: checkMemory_unfold enableNAPT_fields enableNAPT_naptOK enableNAPT_result)

text \<open>
  Two concrete cycles from the healthy state: readings of 7000 throughout re-enable
  forwarding, readings of 7000, 5000, 5000 leave it off.
\<close>

theorem checkMemory_low_tier_witness:
  "naptOK linked \<and> sint (getFreeHeap (heap_env [7000, 7000, 7000]) (nHeap linked)) < 8000
   \<and> naptOK (final (checkMemory (heap_env [7000, 7000, 7000]) linked))
   \<and> \<not> naptOK (final (checkMemory (heap_env [7000, 5000, 5000]) linked))"
proof -
  have a: "naptOK linked" by (simp add: concrete_defs)
  have b: "sint (getFreeHeap (heap_env [7000, 7000, 7000]) (nHeap linked)) < 8000"
    by (simp add: concrete_defs)
  have c: "sint (getFreeHeap (heap_env [7000, 5000, 5000]) (nHeap linked)) < 8000"
    by (simp add: concrete_defs)
  show ?thesis
    using checkMemory_low_tier [OF a b] checkMemory_low_tier [OF a c] a b
    by (simp add: concrete_defs enableNAPT_result)
qed

text \<open>
  The second half of the claim as stated fails: after a cycle that left forwarding off
  (readings 7000, 5000, 5000), two further cycles that each read a healthy 9000 with the
  link up leave it off. The re-enable sits inside the branch for readings below 8000.
\<close>

theorem healthy_reading_does_not_reenable:
  "naptOK linked
   \<and> sint (getFreeHeap (heap_env [7000, 5000, 5000, 9000, 9000]) 0) < 8000
   \<and> \<not> naptOK (final (checkMemory (heap_env [7000, 5000, 5000, 9000, 9000]) linked))
   \<and> stationOK (final (checkMemory (heap_env [7000, 5000, 5000, 9000, 9000]) linked))
   \<and> getFreeHeap (heap_env [7000, 5000, 5000, 9000, 9000])
        (nHeap (final (checkMemory (heap_env [7000, 5000, 5000, 9000, 9000]) linked))) = 9000
   \<and> \<not> naptOK (final (checkMemory (heap_env [7000, 5000, 5000, 9000, 9000])
          (final (checkMemory (heap_env [7000, 5000, 5000, 9000, 9000]) linked))))
   \<and> \<not> naptOK (final (checkMemory (heap_env [7000, 5000, 5000, 9000, 9000])
          (final (checkMemory (heap_env [7000, 5000, 5000, 9000, 9000])
            (final (checkMemory (heap_env [7000, 5000, 5000, 9000, 9000]) linked))))))"
  by (simp add: concrete_defs checkMemory_unfold)

text \<open>
  C5, as the code has it. The re-enable test compares the new reading with 6000, which is
  below the 8000 that triggers the Low tier: \<open>checkMemory\<close> calls \<open>ip_napt_init\<close> exactly
  when the first reading is below 8000, the link flag is up and the next reading is above
  6000.
\<close>

theorem reenable_decision:
  "(nNaptInit s < nNaptInit (final (checkMemory e s))) =
     (sint (getFreeHeap e (nHeap s)) < 8000 \<and> stationOK s
      \<and> 6000 < getFreeHeap e (nHeap s + 1))"
  by (simp add: checkMemory_unfold enableNAPT_calls)

text \<open>
  The claim as stated, a re-enable bound above the trigger bound, fails: a new reading of
  7000, itself below the trigger bound of 8000, re-enables forwarding.
\<close>

theorem reenable_below_trigger:
  "sint (getFreeHeap (heap_env [7000, 7000, 7000]) (nHeap linked)) < 8000
   \<and> \<not> 8000 < getFreeHeap (heap_env [7000, 7000, 7000]) (nHeap linked + 1)
   \<and> nNaptInit linked < nNaptInit (final (checkMemory (heap_env [7000, 7000, 7000]) linked))
   \<and> naptOK (final (checkMemory (heap_env [7000, 7000, 7000]) linked))"
  by (simp add: concrete_defs checkMemory_unfold enableNAPT_unfold)

subsection \<open>The reachability probe\<close>

text \<open>
  C7. With link and forwarding up, \<open>testInternet\<close> tries 8.8.8.8:53, then 1.1.1.1:53, then
  google.com:80, and stops at the first connection that succeeds: the connection attempts
  it makes are the list up to and including the first success, or all three. It returns
  true and sets \<open>internetOK\<close> exactly when one of the attempts made succeeds; when all
  three fail it returns false and \<open>internetOK\<close> is false.
\<close>

theorem testInternet_first_success_wins:
  assumes "stationOK s" and "naptOK s"
  shows "let c0 = clientConnect e (nConnect s) ''8.8.8.8'' 53;
             c1 = clientConnect e (nConnect s + 1) ''1.1.1.1'' 53;
             c2 = clientConnect e (nConnect s + 2) ''google.com'' 80;
             r = testInternet e s
         in fst r = (c0 \<or> c1 \<or> c2)
            \<and> internetOK (snd r) = (c0 \<or> c1 \<or> c2)
            \<and> connects (new_events s (snd r)) =
                (if c0 then [(''8.8.8.8'', 53)]
                 else if c1 then [(''8.8.8.8'', 53), (''1.1.1.1'', 53)]
                 else [(''8.8.8.8'', 53), (''1.1.1.1'', 53), (''google.com'', 80)])"
  using assms
  by (simp add: testInternet_def testInternet_loop_unroll client_connect_def emit_def delay_def
      new_events_def Let_def)

text \<open>
  The scenario of the specification: the first endpoint fails, the second succeeds, the
  third is not tried.
\<close>

theorem testInternet_first_success_wins_witness:
  "stationOK (linked\<lparr>internetOK := False\<rparr>) \<and> naptOK (linked\<lparr>internetOK := False\<rparr>)
   \<and> fst (testInternet env_second (linked\<lparr>internetOK := False\<rparr>))
   \<and> internetOK (snd (testInternet env_second (linked\<lparr>internetOK := False\<rparr>)))
   \<and> connects (new_events (linked\<lparr>internetOK := False\<rparr>)
        (snd (testInternet env_second (linked\<lparr>internetOK := False\<rparr>))))
      = [(''8.8.8.8'', 53), (''1.1.1.1'', 53)]"
proof -
  have a: "stationOK (linked\<lparr>internetOK := False\<rparr>)" "naptOK (linked\<lparr>internetOK := False\<rparr>)"
    by (simp_all add: concrete_defs)
  show ?thesis
    using testInternet_first_success_wins [OF a, of env_second] a
    by (simp add: Let_def concrete_defs)
qed

text \<open>
  C10. Without the link or without forwarding, \<open>testInternet\<close> returns false with
  \<open>internetOK\<close> cleared and nothing else changed: no connection is attempted.
\<close>

theorem testInternet_guard:
  assumes "\<not> stationOK s \<or> \<not> naptOK s"
  shows "testInternet e s = (False, s\<lparr>internetOK := False\<rparr>)
       \<and> connects (new_events s (snd (testInternet e s))) = []
       \<and> nConnect (snd (testInternet e s)) = nConnect s"
  using assms by (simp add: testInternet_def new_events_def)

text \<open>The healthy state with forwarding switched off, where every connection would succeed.\<close>

theorem testInternet_guard_witness:
  "stationOK (linked\<lparr>naptOK := False\<rparr>) \<and> \<not> naptOK (linked\<lparr>naptOK := False\<rparr>)
   \<and> fst (testInternet env_up (linked\<lparr>naptOK := False\<rparr>)) = False
   \<and> internetOK (snd (testInternet env_up (linked\<lparr>naptOK := False\<rparr>))) = False
   \<and> trace (snd (testInternet env_up (linked\<lparr>naptOK := False\<rparr>))) = []"
proof -
  have a: "\<not> stationOK (linked\<lparr>naptOK := False\<rparr>) \<or> \<not> naptOK (linked\<lparr>naptOK := False\<rparr>)"
    by (simp add: concrete_defs)
  show ?thesis
    using testInternet_guard [OF a, of env_up] a by (simp add: concrete_defs)
qed

subsection \<open>The reconnect ceiling\<close>

text \<open>
  C8. The 30-second block of \<open>loop\<close> calls the restart exactly when \<open>reconnectCount\<close>, read
  as a signed \<open>int\<close>, is above 10: nothing in the block changes the counter and nothing
  else in the block restarts. And a pass through \<open>loop\<close> in which the block is due, the
  two fast timers are not, and the counter is above 10 ends in the restart.
\<close>

theorem too_many_reconnects_restart:
  "restarted (periodicTasks e s) = (10 < sint (reconnectCount s))
   \<and> (\<not> CONNECTION_WATCHDOG < millis e (nMillis s + 1) - lastWatchdog s
      \<and> \<not> 10000 < millis e (nMillis s + 1) - lastMemoryCheck s
      \<and> STATUS_INTERVAL < millis e (nMillis s + 1) - lastCheck s
      \<and> 10 < sint (reconnectCount s)
      \<longrightarrow> restarted (loop e s))"
proof (intro conjI impI)
  show "restarted (periodicTasks e s) = (10 < sint (reconnectCount s))"
    by (rule periodicTasks_restarted)
next
  assume due: "\<not> CONNECTION_WATCHDOG < millis e (nMillis s + 1) - lastWatchdog s
      \<and> \<not> 10000 < millis e (nMillis s + 1) - lastMemoryCheck s
      \<and> STATUS_INTERVAL < millis e (nMillis s + 1) - lastCheck s
      \<and> 10 < sint (reconnectCount s)"
  obtain now t where nt: "get_millis e (updateLED e (server_handleClient e s)) = (now, t)"
    by (cases "get_millis e (updateLED e (server_handleClient e s))")
  from loop_prologue [OF nt] have now: "now = millis e (nMillis s + 1)"
    and sup: "supervisor t = supervisor s" by simp_all
  let ?p = "periodicTasks e (t\<lparr>lastCheck := now\<rparr>)"
  have "restarted ?p"
    using due sup by (simp add: periodicTasks_restarted supervisor_def)
  then obtain u where u: "?p = Restarted u"
    by (cases ?p) simp_all
  have due': "\<not> CONNECTION_WATCHDOG < now - lastWatchdog t"
    "\<not> 10000 < now - lastMemoryCheck t" "STATUS_INTERVAL < now - lastCheck t"
    using due sup unfolding now by (simp_all add: supervisor_def)
  have "loop e s = Restarted u"
    by (simp add: loop_def nt and_then_def Let_def due' u)
  then show "restarted (loop e s)"
    by simp
qed

text \<open>
  At 31 s, with eleven reconnects counted, the fast timers fired at 25 s and the status
  timer at 0: the pass restarts. With the counter at 10 the block does not.
\<close>

theorem too_many_reconnects_restart_witness:
  "\<not> CONNECTION_WATCHDOG < millis env_late (nMillis overrun + 1) - lastWatchdog overrun
   \<and> \<not> 10000 < millis env_late (nMillis overrun + 1) - lastMemoryCheck overrun
   \<and> STATUS_INTERVAL < millis env_late (nMillis overrun + 1) - lastCheck overrun
   \<and> 10 < sint (reconnectCount overrun)
   \<and> restarted (loop env_late overrun)
   \<and> restarted (periodicTasks env_late overrun)
   \<and> \<not> restarted (periodicTasks env_late (overrun\<lparr>reconnectCount := 10\<rparr>))"
proof -
  have due: "\<not> CONNECTION_WATCHDOG < millis env_late (nMillis overrun + 1) - lastWatchdog overrun
   \<and> \<not> 10000 < millis env_late (nMillis overrun + 1) - lastMemoryCheck overrun
   \<and> STATUS_INTERVAL < millis env_late (nMillis overrun + 1) - lastCheck overrun
   \<and> 10 < sint (reconnectCount overrun)"
    by (simp add: concrete_defs CONNECTION_WATCHDOG_def STATUS_INTERVAL_def)
  have ten: "\<not> 10 < sint (reconnectCount (overrun\<lparr>reconnectCount := 10\<rparr>))"
    by simp
  show ?thesis
    using too_many_reconnects_restart [of env_late overrun]
      too_many_reconnects_restart [of env_late "overrun\<lparr>reconnectCount := 10\<rparr>"] due ten
    by blast
qed

subsection \<open>Frame properties\<close>

text \<open>
  C9. The indicator update and the status-page handler leave the supervisor state as it
  was: the three flags, the failure counter, the reconnect counter and the four timer
  timestamps. Of the whole state \<open>updateLED\<close> changes only its blink phase (\<open>lastBlink\<close>,
  \<open>ledState\<close>), besides the count of clock readings and the trace of commands.
\<close>

theorem updateLED_handleRoot_frame:
  "supervisor (updateLED e s) = supervisor s \<and> supervisor (handleRoot e s) = supervisor s
   \<and> (updateLED e s)\<lparr>lastBlink := lb, ledState := ls, nMillis := nm, trace := tr\<rparr>
       = s\<lparr>lastBlink := lb, ledState := ls, nMillis := nm, trace := tr\<rparr>"
  by (simp add: supervisor_def updateLED_def handleRoot_def toggleLED_def emit_def get_millis_def
      WiFi_softAPgetStationNum_def ESP_getFreeHeap_def Let_def)

end
